theory Spec2Isabelle
  imports Main "HOL-Library.Word" "HOL-Library.Char_ord" "HOL-Library.List_Lexorder"
begin

unbundle bit_operations_syntax

section \<open>Python values used by \<^verbatim>\<open>common_utils.py\<close>\<close>

text \<open>
  Strings are \<^typ>\<open>string\<close>; raw image data and serialized geometry are byte strings.
  A name that may be \<^verbatim>\<open>None\<close> is a \<^typ>\<open>string option\<close>, and Python's truth test of
  such a value (\<^verbatim>\<open>if icon_name:\<close>, \<^verbatim>\<open>if plugin_name:\<close>) is \<open>truthy\<close>: neither
  \<^verbatim>\<open>None\<close> nor the empty string.
\<close>

type_synonym bytes = "char list"

definition truthy :: "string option \<Rightarrow> bool" where
  "truthy v = (case v of None \<Rightarrow> False | Some s \<Rightarrow> s \<noteq> [])"

text \<open>\<^verbatim>\<open>s.startswith(p)\<close>.\<close>

definition startswith :: "string \<Rightarrow> string \<Rightarrow> bool" where
  "startswith s p = (take (length p) s = p)"

text \<open>
  \<^verbatim>\<open>s.replace(old, new)\<close>: every non-overlapping occurrence of \<open>old\<close>, scanning from the
  left, is replaced. With an empty \<open>old\<close> Python puts \<open>new\<close> before every character and
  at the end.
\<close>

function str_replace :: "string \<Rightarrow> string \<Rightarrow> string \<Rightarrow> string" where
  "str_replace s old new =
     (if old = [] then new @ concat (map (\<lambda>c. c # new) s)
      else if s = [] then []
      else if startswith s old then new @ str_replace (drop (length old) s) old new
      else hd s # str_replace (tl s) old new)"
  by pat_completeness auto
termination
  by (relation "measure (\<lambda>(s, old, new). length s)") auto

declare str_replace.simps [simp del]

section \<open>The host application and the plugin globals\<close>

text \<open>
  The module reads the host through \<^verbatim>\<open>calibre.utils.config.config_dir\<close>,
  \<^verbatim>\<open>calibre.constants.iswindows\<close>, the builtin \<^verbatim>\<open>I\<close> (the path of a named image of the
  host's icon cache), \<^verbatim>\<open>os.path.join\<close>, \<^verbatim>\<open>os.path.normpath\<close>, \<^verbatim>\<open>os.path.exists\<close> and
  the image decoders behind \<^verbatim>\<open>QPixmap.load\<close> and \<^verbatim>\<open>QPixmap.loadFromData\<close>. None of them
  is code of this module, so they are the fields of a record every function takes.
\<close>

record 'img host =
  config_dir :: string
  iswindows :: bool
  path_join :: "string \<Rightarrow> string \<Rightarrow> string"
  normpath :: "string \<Rightarrow> string"
  path_exists :: "string \<Rightarrow> bool"
  I :: "string \<Rightarrow> string"
  read_image :: "string \<Rightarrow> 'img option"
  decode_image :: "bytes \<Rightarrow> 'img option"

text \<open>
  A \<^verbatim>\<open>QPixmap\<close> is null until a load succeeds; a failed load leaves it null and raises
  nothing. A \<^verbatim>\<open>QIcon\<close> is empty, made from a file name, or made from a pixmap.
\<close>

datatype 'img qpixmap = QPixmap_null | QPixmap_image 'img

datatype 'img qicon = QIcon_empty | QIcon_file string | QIcon_pixmap "'img qpixmap"

definition QPixmap_load :: "'img host \<Rightarrow> string \<Rightarrow> 'img qpixmap" where
  "QPixmap_load h path =
     (case read_image h path of None \<Rightarrow> QPixmap_null | Some i \<Rightarrow> QPixmap_image i)"

definition QPixmap_loadFromData :: "'img host \<Rightarrow> bytes \<Rightarrow> 'img qpixmap" where
  "QPixmap_loadFromData h d =
     (case decode_image h d of None \<Rightarrow> QPixmap_null | Some i \<Rightarrow> QPixmap_image i)"

text \<open>The module globals \<^verbatim>\<open>plugin_name\<close> and \<^verbatim>\<open>plugin_icon_resources\<close>.\<close>

record plugin_globals =
  plugin_name :: "string option"
  plugin_icon_resources :: "string \<rightharpoonup> bytes"

definition initial_globals :: plugin_globals where
  "initial_globals = \<lparr>plugin_name = None, plugin_icon_resources = Map.empty\<rparr>"

definition set_plugin_icon_resources ::
  "string option \<Rightarrow> (string \<rightharpoonup> bytes) \<Rightarrow> plugin_globals \<Rightarrow> plugin_globals" where
  "set_plugin_icon_resources name resources g =
     g\<lparr>plugin_name := name, plugin_icon_resources := resources\<rparr>"

section \<open>Icon resolution\<close>

definition get_local_images_dir :: "'img host \<Rightarrow> string option \<Rightarrow> string" where
  "get_local_images_dir h subfolder =
     (let images_dir = path_join h (config_dir h) ''resources/images'';
          images_dir = (case subfolder of
                          None \<Rightarrow> images_dir
                        | Some sf \<Rightarrow>
                            if sf \<noteq> [] then path_join h images_dir sf else images_dir);
          images_dir = (if iswindows h then normpath h images_dir else images_dir)
      in images_dir)"

text \<open>
  \<^verbatim>\<open>get_pixmap\<close> returns \<^verbatim>\<open>None\<close> (here \<open>None\<close>) or a pixmap, which may be null.
  The source returns early three times; \<open>skinned\<close> holds the result of the second
  early return, taken inside \<^verbatim>\<open>if plugin_name:\<close>, and the resource map is consulted only
  when that return was not taken.
\<close>

definition get_pixmap :: "'img host \<Rightarrow> plugin_globals \<Rightarrow> string \<Rightarrow> 'img qpixmap option" where
  "get_pixmap h g icon_name =
     (if \<not> startswith icon_name ''images/'' then Some (QPixmap_load h (I h icon_name))
      else
        (let skinned =
               (if truthy (plugin_name g) then
                  (let local_images_dir = get_local_images_dir h (plugin_name g);
                       local_image_path =
                         path_join h local_images_dir (str_replace icon_name ''images/'' [])
                   in if path_exists h local_image_path
                      then Some (QPixmap_load h local_image_path)
                      else None)
                else None)
         in case skinned of
              Some pixmap \<Rightarrow> Some pixmap
            | None \<Rightarrow>
                (case plugin_icon_resources g icon_name of
                   Some data \<Rightarrow> Some (QPixmap_loadFromData h data)
                 | None \<Rightarrow> None)))"

definition get_icon :: "'img host \<Rightarrow> plugin_globals \<Rightarrow> string option \<Rightarrow> 'img qicon" where
  "get_icon h g icon_name =
     (case icon_name of
        None \<Rightarrow> QIcon_empty
      | Some n \<Rightarrow>
          if n = [] then QIcon_empty
          else (case get_pixmap h g n of
                  None \<Rightarrow> QIcon_file (I h n)
                | Some pixmap \<Rightarrow> QIcon_pixmap pixmap))"

text \<open>
  The file \<^verbatim>\<open>get_pixmap\<close> looks for in the skin folder: the folder of the plugin's name
  under the host's \<^verbatim>\<open>resources/images\<close>, and the icon name with every \<^verbatim>\<open>images/\<close>
  removed. There is such a file only while a plugin name is set.
\<close>

definition skin_image_path :: "'img host \<Rightarrow> plugin_globals \<Rightarrow> string \<Rightarrow> string option" where
  "skin_image_path h g icon_name =
     (if truthy (plugin_name g)
      then Some (path_join h (get_local_images_dir h (plugin_name g))
                   (str_replace icon_name ''images/'' []))
      else None)"

definition skin_image_exists :: "'img host \<Rightarrow> plugin_globals \<Rightarrow> string \<Rightarrow> bool" where
  "skin_image_exists h g icon_name =
     (case skin_image_path h g icon_name of None \<Rightarrow> False | Some p \<Rightarrow> path_exists h p)"

section \<open>Library identifier\<close>

text \<open>
  \<^verbatim>\<open>db.library_id\<close> is a property of a host object: reading it gives a value or raises.
  The bare \<^verbatim>\<open>except:\<close> catches whatever is raised.
\<close>

datatype py_error = KeyError string | AttributeError string | Exception string

record db =
  library_id :: "py_error + string"

definition try_except :: "py_error + 'a \<Rightarrow> py_error + 'a \<Rightarrow> py_error + 'a" where
  "try_except body handler = (case body of Inl e \<Rightarrow> handler | Inr v \<Rightarrow> Inr v)"

definition get_library_uuid :: "db \<Rightarrow> py_error + string" where
  "get_library_uuid d = try_except (library_id d) (Inr [])"

section \<open>Dialogs that remember their geometry\<close>

text \<open>
  \<^verbatim>\<open>gprefs\<close> is the host's preference dictionary. The widget state \<open>'w\<close> of a dialog and
  the four \<^verbatim>\<open>QWidget\<close> methods the class calls belong to the toolkit.
\<close>

type_synonym gprefs = "string \<rightharpoonup> bytes"

record ('w, 'sz) qwidget_ops =
  saveGeometry :: "'w \<Rightarrow> bytes"
  restoreGeometry :: "'w \<Rightarrow> bytes \<Rightarrow> 'w"
  sizeHint :: "'w \<Rightarrow> 'sz"
  resize :: "'w \<Rightarrow> 'sz \<Rightarrow> 'w"

record 'w SizePersistedDialog =
  unique_pref_name :: string
  geom :: "bytes option"
  widget :: 'w

text \<open>\<^verbatim>\<open>__init__\<close>; \<open>w\<close> is the widget \<^verbatim>\<open>QDialog.__init__\<close> has made.\<close>

definition SizePersistedDialog_init :: "gprefs \<Rightarrow> 'w \<Rightarrow> string \<Rightarrow> 'w SizePersistedDialog" where
  "SizePersistedDialog_init gp w name =
     \<lparr>unique_pref_name = name, geom = gp name, widget = w\<rparr>"

definition resize_dialog ::
  "('w, 'sz) qwidget_ops \<Rightarrow> 'w SizePersistedDialog \<Rightarrow> 'w SizePersistedDialog" where
  "resize_dialog qt self =
     (case geom self of
        None \<Rightarrow> self\<lparr>widget := resize qt (widget self) (sizeHint qt (widget self))\<rparr>
      | Some g \<Rightarrow> self\<lparr>widget := restoreGeometry qt (widget self) g\<rparr>)"

text \<open>\<^verbatim>\<open>dialog_closing\<close>, the handler of the dialog's \<^verbatim>\<open>finished\<close> signal.\<close>

definition dialog_closing ::
  "('w, 'sz) qwidget_ops \<Rightarrow> 'w SizePersistedDialog \<Rightarrow> gprefs \<Rightarrow> gprefs" where
  "dialog_closing qt self gp =
     (let geom = saveGeometry qt (widget self)
      in gp(unique_pref_name self \<mapsto> geom))"

section \<open>Table items\<close>

text \<open>
  The values of \<^verbatim>\<open>Qt.ItemFlag\<close> and \<^verbatim>\<open>Qt.CheckState\<close> are the toolkit's. A fresh
  \<^verbatim>\<open>QTableWidgetItem\<close> is selectable, editable, drag and drop enabled, user checkable and
  enabled, and has no check state, which \<^verbatim>\<open>checkState()\<close> reads as unchecked.
\<close>

type_synonym ItemFlags = "32 word"

definition ItemIsSelectable :: ItemFlags where "ItemIsSelectable = 1"
definition ItemIsEditable :: ItemFlags where "ItemIsEditable = 2"
definition ItemIsDragEnabled :: ItemFlags where "ItemIsDragEnabled = 4"
definition ItemIsDropEnabled :: ItemFlags where "ItemIsDropEnabled = 8"
definition ItemIsUserCheckable :: ItemFlags where "ItemIsUserCheckable = 16"
definition ItemIsEnabled :: ItemFlags where "ItemIsEnabled = 32"
definition ItemIsTristate :: ItemFlags where "ItemIsTristate = 64"

datatype CheckState = Unchecked | PartiallyChecked | Checked

record QTableWidgetItem =
  item_text :: string
  item_flags :: ItemFlags
  checkState :: CheckState

definition QTableWidgetItem_init :: "string \<Rightarrow> QTableWidgetItem" where
  "QTableWidgetItem_init t =
     \<lparr>item_text = t,
      item_flags = ItemIsSelectable OR ItemIsEditable OR ItemIsDragEnabled OR ItemIsDropEnabled
                   OR ItemIsUserCheckable OR ItemIsEnabled,
      checkState = Unchecked\<rparr>"

definition setFlags :: "ItemFlags \<Rightarrow> QTableWidgetItem \<Rightarrow> QTableWidgetItem" where
  "setFlags f item = item\<lparr>item_flags := f\<rparr>"

definition setCheckState :: "CheckState \<Rightarrow> QTableWidgetItem \<Rightarrow> QTableWidgetItem" where
  "setCheckState s item = item\<lparr>checkState := s\<rparr>"

definition ReadOnlyTableWidgetItem_init :: "string option \<Rightarrow> QTableWidgetItem" where
  "ReadOnlyTableWidgetItem_init t =
     (let t = (case t of None \<Rightarrow> [] | Some s \<Rightarrow> s);
          self = QTableWidgetItem_init t
      in setFlags (ItemIsSelectable OR ItemIsEnabled) self)"

text \<open>
  \<open>checked\<close> is \<^verbatim>\<open>True\<close>, \<^verbatim>\<open>False\<close> or \<^verbatim>\<open>None\<close>; only \<^verbatim>\<open>True\<close> passes \<^verbatim>\<open>if checked:\<close>.
\<close>

definition CheckableTableWidgetItem_init :: "bool option \<Rightarrow> bool \<Rightarrow> QTableWidgetItem" where
  "CheckableTableWidgetItem_init checked is_tristate =
     (let self = QTableWidgetItem_init [];
          self = setFlags (ItemIsSelectable OR ItemIsUserCheckable OR ItemIsEnabled) self;
          self = (if is_tristate then setFlags (item_flags self OR ItemIsTristate) self else self)
      in if checked = Some True then setCheckState Checked self
         else if is_tristate \<and> checked = None then setCheckState PartiallyChecked self
         else setCheckState Unchecked self)"

text \<open>The constructor with its default arguments \<^verbatim>\<open>checked=False, is_tristate=False\<close>.\<close>

definition CheckableTableWidgetItem_default :: QTableWidgetItem where
  "CheckableTableWidgetItem_default = CheckableTableWidgetItem_init (Some False) False"

definition get_boolean_value :: "QTableWidgetItem \<Rightarrow> bool option" where
  "get_boolean_value self =
     (if checkState self = PartiallyChecked then None
      else Some (checkState self = Checked))"

section \<open>The preferences viewer\<close>

text \<open>
  \<^verbatim>\<open>db.prefs\<close> is a dictionary: a list of key and value pairs in insertion order, with no
  key twice. \<^verbatim>\<open>del d[k]\<close> raises \<^verbatim>\<open>KeyError\<close> for a key that is not there.
\<close>

type_synonym 'v prefs = "(string \<times> 'v) list"

definition iterkeys :: "'v prefs \<Rightarrow> string list" where
  "iterkeys d = map fst d"

definition dict_delitem :: "'v prefs \<Rightarrow> string \<Rightarrow> py_error + 'v prefs" where
  "dict_delitem d k =
     (if k \<in> set (iterkeys d) then Inr (filter (\<lambda>(k', v). k' \<noteq> k) d) else Inl (KeyError k))"

fun delete_keys :: "'v prefs \<Rightarrow> string list \<Rightarrow> py_error + 'v prefs" where
  "delete_keys d [] = Inr d"
| "delete_keys d (k # ks) =
     (case dict_delitem d k of Inl e \<Rightarrow> Inl e | Inr d' \<Rightarrow> delete_keys d' ks)"

text \<open>
  The part of a \<^verbatim>\<open>PrefsViewerDialog\<close> that \<^verbatim>\<open>_clear_settings\<close> reads and writes: the
  namespace, the preferences of the current database, the keys shown in the list, whether
  the dialog has been closed and whether a restart of the host was asked for.
\<close>

record 'v PrefsViewerDialog =
  namespace :: string
  db_prefs :: "'v prefs"
  keys_list :: "string list"
  closed :: bool
  restart :: bool

text \<open>\<^verbatim>\<open>_get_ns_prefix\<close>.\<close>

definition get_ns_prefix :: "'v PrefsViewerDialog \<Rightarrow> string" where
  "get_ns_prefix self = ''namespaced:'' @ namespace self @ '':''"

text \<open>\<^verbatim>\<open>_populate_settings\<close>.\<close>

definition populate_settings :: "'v PrefsViewerDialog \<Rightarrow> 'v PrefsViewerDialog" where
  "populate_settings self =
     (let ns_prefix = get_ns_prefix self;
          keys = sort (map (drop (length ns_prefix))
                         (filter (\<lambda>k. startswith k ns_prefix) (iterkeys (db_prefs self))))
      in self\<lparr>keys_list := keys\<rparr>)"

text \<open>
  \<^verbatim>\<open>_clear_settings\<close>. \<open>confirm\<close> is the answer of the host's confirmation prompt and
  \<open>do_restart\<close> tells whether the user pressed the restart button of the information
  dialog shown after the deletion.
\<close>

definition clear_settings ::
  "bool \<Rightarrow> bool \<Rightarrow> 'v PrefsViewerDialog \<Rightarrow> py_error + 'v PrefsViewerDialog" where
  "clear_settings confirm do_restart self =
     (if \<not> confirm then Inr self
      else
        (let ns_prefix = get_ns_prefix self;
             keys = filter (\<lambda>k. startswith k ns_prefix) (iterkeys (db_prefs self))
         in case delete_keys (db_prefs self) keys of
              Inl e \<Rightarrow> Inl e
            | Inr d \<Rightarrow>
                (let self = populate_settings (self\<lparr>db_prefs := d\<rparr>)
                 in Inr (self\<lparr>closed := True, restart := do_restart\<rparr>))))"

section \<open>A concrete host, for evaluating the functions\<close>

text \<open>
  \<^verbatim>\<open>posixpath.join\<close> for two components: an absolute second component replaces the
  first; otherwise the two are joined by one separator.
\<close>

definition posixpath_join :: "string \<Rightarrow> string \<Rightarrow> string" where
  "posixpath_join a b =
     (if startswith b ''/'' then b
      else if a = [] \<or> last a = CHR ''/'' then a @ b
      else a @ ''/'' @ b)"

text \<open>
  A POSIX host whose only skin file is \<^verbatim>\<open>skin.png\<close> of the plugin \<^verbatim>\<open>EpubSplit\<close>. An image
  is named by where it was read from.
\<close>

definition example_host :: "string host" where
  "example_host =
     \<lparr>config_dir = ''/cfg'', iswindows = False, path_join = posixpath_join,
      normpath = (\<lambda>p. p),
      path_exists = (\<lambda>p. p = ''/cfg/resources/images/EpubSplit/skin.png''),
      I = (\<lambda>n. ''/usr/share/calibre/images/'' @ n),
      read_image = (\<lambda>p. Some (''file:'' @ p)),
      decode_image = (\<lambda>d. if d = [] then None else Some (''data:'' @ d))\<rparr>"

definition example_globals :: plugin_globals where
  "example_globals =
     set_plugin_icon_resources (Some ''EpubSplit'')
       [''images/skin.png'' \<mapsto> ''A'', ''images/zip.png'' \<mapsto> ''B''] initial_globals"

text \<open>A toolkit whose widgets are their own serialized geometry.\<close>

definition example_qt :: "(bytes, bytes) qwidget_ops" where
  "example_qt =
     \<lparr>saveGeometry = (\<lambda>w. w), restoreGeometry = (\<lambda>w b. b),
      sizeHint = (\<lambda>w. ''hint''), resize = (\<lambda>w s. s)\<rparr>"

definition example_size_dialog :: "bytes SizePersistedDialog" where
  "example_size_dialog =
     \<lparr>unique_pref_name = ''Prefs Viewer dialog'', geom = None, widget = ''800x600''\<rparr>"

definition example_dialog :: "nat PrefsViewerDialog" where
  "example_dialog =
     \<lparr>namespace = ''EpubSplit'',
      db_prefs = [(''namespaced:EpubSplit:a'', 1), (''other'', 2),
                  (''namespaced:EpubSplit:b'', 3), (''namespaced:Other:c'', 4)],
      keys_list = [''a'', ''b''], closed = False, restart = False\<rparr>"

section \<open>Properties of icon resolution\<close>

lemmas example_defs = example_host_def example_globals_def set_plugin_icon_resources_def
  initial_globals_def posixpath_join_def

lemmas skin_defs = skin_image_exists_def skin_image_path_def truthy_def
  get_local_images_dir_def startswith_def

lemma get_pixmap_images:
  "startswith n ''images/'' \<Longrightarrow>
   get_pixmap h g n =
     (case skin_image_path h g n of
        Some p \<Rightarrow> if path_exists h p then Some (QPixmap_load h p)
                  else map_option (QPixmap_loadFromData h) (plugin_icon_resources g n)
      | None \<Rightarrow> map_option (QPixmap_loadFromData h) (plugin_icon_resources g n))"
  by (simp add: get_pixmap_def skin_image_path_def Let_def split: option.splits)

lemma startswith_images_nonempty: "startswith n ''images/'' \<Longrightarrow> n \<noteq> []"
  by (auto simp: startswith_def)

lemma example_skin_png:
  "skin_image_path example_host example_globals ''images/skin.png''
     = Some ''/cfg/resources/images/EpubSplit/skin.png''"
  by (simp add: skin_defs example_defs str_replace.simps)

lemma example_zip_png:
  "\<not> skin_image_exists example_host example_globals ''images/zip.png''"
  by (simp add: skin_defs example_defs str_replace.simps)

lemma example_none_png:
  "\<not> skin_image_exists example_host example_globals ''images/none.png''"
  by (simp add: skin_defs example_defs str_replace.simps)

text \<open>
  Claim C1. For an icon name that starts with \<^verbatim>\<open>images/\<close>, \<^verbatim>\<open>get_icon\<close> answers in this
  order of priority: the image loaded from the file of the plugin's skin folder when that
  file exists on disk; else the image decoded from the entry of the bundled resource map;
  else the icon of that name of the host's cache. The skin folder is the folder of the
  plugin's name, so there is a skin file only while a plugin name is set.
\<close>

theorem get_icon_priority:
  assumes "startswith icon_name ''images/''"
  shows "(\<forall>p. skin_image_path h g icon_name = Some p \<and> path_exists h p \<longrightarrow>
            get_icon h g (Some icon_name) = QIcon_pixmap (QPixmap_load h p)) \<and>
         (\<forall>d. \<not> skin_image_exists h g icon_name \<and> plugin_icon_resources g icon_name = Some d \<longrightarrow>
            get_icon h g (Some icon_name) = QIcon_pixmap (QPixmap_loadFromData h d)) \<and>
         (\<not> skin_image_exists h g icon_name \<and> plugin_icon_resources g icon_name = None \<longrightarrow>
            get_icon h g (Some icon_name) = QIcon_file (I h icon_name))"
  using assms startswith_images_nonempty[OF assms]
  by (auto simp: get_icon_def get_pixmap_images skin_image_exists_def split: option.splits)

theorem get_icon_priority_witness:
  "startswith ''images/skin.png'' ''images/'' \<and>
   startswith ''images/zip.png'' ''images/'' \<and>
   startswith ''images/none.png'' ''images/'' \<and>
   plugin_icon_resources example_globals ''images/skin.png'' = Some ''A'' \<and>
   get_icon example_host example_globals (Some ''images/skin.png'')
     = QIcon_pixmap (QPixmap_image ''file:/cfg/resources/images/EpubSplit/skin.png'') \<and>
   get_icon example_host example_globals (Some ''images/zip.png'')
     = QIcon_pixmap (QPixmap_image ''data:B'') \<and>
   get_icon example_host example_globals (Some ''images/none.png'')
     = QIcon_file ''/usr/share/calibre/images/images/none.png''"
proof -
  have s1: "startswith ''images/skin.png'' ''images/''"
    and s2: "startswith ''images/zip.png'' ''images/''"
    and s3: "startswith ''images/none.png'' ''images/''"
    by (simp_all add: startswith_def)
  have ex: "path_exists example_host ''/cfg/resources/images/EpubSplit/skin.png''"
    by (simp add: example_host_def)
  have r1: "plugin_icon_resources example_globals ''images/skin.png'' = Some ''A''"
    and r2: "plugin_icon_resources example_globals ''images/zip.png'' = Some ''B''"
    and r3: "plugin_icon_resources example_globals ''images/none.png'' = None"
    by (simp_all add: example_defs)
  from get_icon_priority[OF s1, of example_host example_globals] example_skin_png ex
  have "get_icon example_host example_globals (Some ''images/skin.png'')
          = QIcon_pixmap (QPixmap_load example_host ''/cfg/resources/images/EpubSplit/skin.png'')"
    by blast
  then have i1: "get_icon example_host example_globals (Some ''images/skin.png'')
          = QIcon_pixmap (QPixmap_image ''file:/cfg/resources/images/EpubSplit/skin.png'')"
    by (simp add: QPixmap_load_def example_host_def)
  from get_icon_priority[OF s2, of example_host example_globals] example_zip_png r2
  have "get_icon example_host example_globals (Some ''images/zip.png'')
          = QIcon_pixmap (QPixmap_loadFromData example_host ''B'')"
    by blast
  then have i2: "get_icon example_host example_globals (Some ''images/zip.png'')
          = QIcon_pixmap (QPixmap_image ''data:B'')"
    by (simp add: QPixmap_loadFromData_def example_host_def)
  from get_icon_priority[OF s3, of example_host example_globals] example_none_png r3
  have "get_icon example_host example_globals (Some ''images/none.png'')
          = QIcon_file (I example_host ''images/none.png'')"
    by blast
  then have i3: "get_icon example_host example_globals (Some ''images/none.png'')
          = QIcon_file ''/usr/share/calibre/images/images/none.png''"
    by (simp add: example_host_def)
  from s1 s2 s3 r1 i1 i2 i3 show ?thesis by blast
qed

text \<open>
  Claim C5. For an icon name that starts with \<^verbatim>\<open>images/\<close>, \<^verbatim>\<open>get_pixmap\<close> returns
  \<^verbatim>\<open>None\<close> when the name has no file in the skin folder and no entry in the bundled
  resource map, and in no other case.
\<close>

theorem get_pixmap_absent:
  assumes "startswith icon_name ''images/''"
  shows "get_pixmap h g icon_name = None \<longleftrightarrow>
           \<not> skin_image_exists h g icon_name \<and> plugin_icon_resources g icon_name = None"
  using assms
  by (auto simp: get_pixmap_images skin_image_exists_def split: option.splits if_splits)

theorem get_pixmap_absent_witness:
  "startswith ''images/none.png'' ''images/'' \<and>
   \<not> skin_image_exists example_host example_globals ''images/none.png'' \<and>
   plugin_icon_resources example_globals ''images/none.png'' = None \<and>
   get_pixmap example_host example_globals ''images/none.png'' = None"
proof -
  have a: "startswith ''images/none.png'' ''images/''"
    by (simp add: startswith_def)
  have c: "plugin_icon_resources example_globals ''images/none.png'' = None"
    by (simp add: example_defs)
  show ?thesis
    using get_pixmap_absent[OF a, of example_host example_globals] a example_none_png c
    by simp
qed

text \<open>
  Claim C6. For an icon name that does not start with \<^verbatim>\<open>images/\<close>, \<^verbatim>\<open>get_pixmap\<close> returns
  the pixmap loaded from the path the host's icon cache gives for the name. The result
  depends on nothing else: two hosts that agree on the icon cache and on the files' images
  give the same pixmap whatever their file systems, plugin names and resource maps are.
\<close>

theorem get_pixmap_host_icon:
  assumes "\<not> startswith icon_name ''images/''"
  shows "get_pixmap h g icon_name = Some (QPixmap_load h (I h icon_name)) \<and>
         (\<forall>h' g'. I h' = I h \<and> read_image h' = read_image h \<longrightarrow>
                   get_pixmap h' g' icon_name = get_pixmap h g icon_name)"
  using assms by (simp add: get_pixmap_def QPixmap_load_def)

theorem get_pixmap_host_icon_witness:
  "\<not> startswith ''trash.png'' ''images/'' \<and>
   get_pixmap example_host example_globals ''trash.png''
     = Some (QPixmap_image ''file:/usr/share/calibre/images/trash.png'') \<and>
   get_pixmap (example_host\<lparr>path_exists := (\<lambda>p. True)\<rparr>) initial_globals ''trash.png''
     = get_pixmap example_host example_globals ''trash.png''"
proof -
  have a: "\<not> startswith ''trash.png'' ''images/''"
    by (simp add: startswith_def)
  have "I (example_host\<lparr>path_exists := (\<lambda>p. True)\<rparr>) = I example_host \<and>
        read_image (example_host\<lparr>path_exists := (\<lambda>p. True)\<rparr>) = read_image example_host"
    by simp
  with get_pixmap_host_icon[OF a, of example_host example_globals]
  have "get_pixmap example_host example_globals ''trash.png''
          = Some (QPixmap_load example_host (I example_host ''trash.png''))"
    and "get_pixmap (example_host\<lparr>path_exists := (\<lambda>p. True)\<rparr>) initial_globals ''trash.png''
          = get_pixmap example_host example_globals ''trash.png''"
    by blast+
  then show ?thesis
    using a by (simp add: QPixmap_load_def example_host_def)
qed

text \<open>
  Claim C8. \<^verbatim>\<open>get_icon\<close> returns an icon for every icon name: the empty icon for
  \<^verbatim>\<open>None\<close> and for the empty name, the host cache's icon of that name when
  \<^verbatim>\<open>get_pixmap\<close> finds no pixmap, and the icon of the pixmap otherwise.
\<close>

theorem get_icon_total:
  "(\<not> truthy icon_name \<longrightarrow> get_icon h g icon_name = QIcon_empty) \<and>
   (\<forall>n. icon_name = Some n \<and> n \<noteq> [] \<and> get_pixmap h g n = None \<longrightarrow>
        get_icon h g icon_name = QIcon_file (I h n)) \<and>
   (\<forall>n p. icon_name = Some n \<and> n \<noteq> [] \<and> get_pixmap h g n = Some p \<longrightarrow>
        get_icon h g icon_name = QIcon_pixmap p)"
  by (auto simp: get_icon_def truthy_def split: option.splits)

theorem get_icon_total_witness:
  "\<not> truthy None \<and> \<not> truthy (Some []) \<and>
   get_icon example_host example_globals None = QIcon_empty \<and>
   get_icon example_host example_globals (Some []) = QIcon_empty \<and>
   get_pixmap example_host initial_globals ''images/zip.png'' = None \<and>
   get_icon example_host initial_globals (Some ''images/zip.png'')
     = QIcon_file ''/usr/share/calibre/images/images/zip.png'' \<and>
   get_pixmap example_host example_globals ''images/zip.png''
     = Some (QPixmap_image ''data:B'') \<and>
   get_icon example_host example_globals (Some ''images/zip.png'')
     = QIcon_pixmap (QPixmap_image ''data:B'')"
proof -
  have t: "\<not> truthy None" "\<not> truthy (Some [])"
    by (simp_all add: truthy_def)
  have p1: "get_pixmap example_host initial_globals ''images/zip.png'' = None"
    by (simp add: get_pixmap_def startswith_def truthy_def initial_globals_def)
  have s: "startswith ''images/zip.png'' ''images/''"
    by (simp add: startswith_def)
  have p2: "get_pixmap example_host example_globals ''images/zip.png''
              = Some (QPixmap_image ''data:B'')"
    using example_zip_png
    by (simp add: get_pixmap_images[OF s] skin_image_exists_def split: option.splits)
       (simp_all add: example_defs QPixmap_loadFromData_def)
  have e1: "get_icon example_host example_globals None = QIcon_empty"
    using get_icon_total[of None example_host example_globals] t by blast
  have e2: "get_icon example_host example_globals (Some []) = QIcon_empty"
    using get_icon_total[of "Some []" example_host example_globals] t by blast
  have "get_icon example_host initial_globals (Some ''images/zip.png'')
          = QIcon_file (I example_host ''images/zip.png'')"
    using get_icon_total[of "Some ''images/zip.png''" example_host initial_globals] p1 by simp
  then have e3: "get_icon example_host initial_globals (Some ''images/zip.png'')
          = QIcon_file ''/usr/share/calibre/images/images/zip.png''"
    by (simp add: example_host_def)
  have e4: "get_icon example_host example_globals (Some ''images/zip.png'')
          = QIcon_pixmap (QPixmap_image ''data:B'')"
    using get_icon_total[of "Some ''images/zip.png''" example_host example_globals] p2 by simp
  from t p1 p2 e1 e2 e3 e4 show ?thesis by blast
qed

section \<open>Properties of the library identifier\<close>

text \<open>
  Claim C7. \<^verbatim>\<open>get_library_uuid\<close> never raises: it returns the database's
  \<^verbatim>\<open>library_id\<close> when reading it succeeds, and the empty string when reading it raises,
  whatever was raised.
\<close>

theorem get_library_uuid_absorbs:
  "get_library_uuid d = Inr (case library_id d of Inl e \<Rightarrow> [] | Inr u \<Rightarrow> u)"
  by (simp add: get_library_uuid_def try_except_def split: sum.splits)

section \<open>Properties of geometry persistence\<close>

text \<open>
  Claim C2. Closing a dialog writes its serialized geometry to the preference store under
  its \<^verbatim>\<open>unique_pref_name\<close> and changes no other key. A dialog constructed afterwards
  with the same key restores, in \<^verbatim>\<open>resize_dialog\<close>, exactly the saved blob; when the
  toolkit's \<^verbatim>\<open>restoreGeometry\<close> reproduces what \<^verbatim>\<open>saveGeometry\<close> serialized, the new
  dialog has the geometry of the closed one. A dialog constructed with a key the store does
  not hold is resized to its \<^verbatim>\<open>sizeHint\<close>.
\<close>

theorem geometry_round_trip:
  "dialog_closing qt self gp (unique_pref_name self) = Some (saveGeometry qt (widget self)) \<and>
   (\<forall>k. k \<noteq> unique_pref_name self \<longrightarrow> dialog_closing qt self gp k = gp k) \<and>
   widget (resize_dialog qt
             (SizePersistedDialog_init (dialog_closing qt self gp) w (unique_pref_name self)))
     = restoreGeometry qt w (saveGeometry qt (widget self)) \<and>
   ((\<forall>w0 w1. saveGeometry qt (restoreGeometry qt w0 (saveGeometry qt w1)) = saveGeometry qt w1) \<longrightarrow>
     saveGeometry qt (widget (resize_dialog qt
        (SizePersistedDialog_init (dialog_closing qt self gp) w (unique_pref_name self))))
       = saveGeometry qt (widget self)) \<and>
   (gp name = None \<longrightarrow>
     widget (resize_dialog qt (SizePersistedDialog_init gp w name)) = resize qt w (sizeHint qt w))"
  by (simp add: dialog_closing_def resize_dialog_def SizePersistedDialog_init_def)

theorem geometry_round_trip_witness:
  "dialog_closing example_qt example_size_dialog Map.empty ''Prefs Viewer dialog''
     = Some ''800x600'' \<and>
   dialog_closing example_qt example_size_dialog Map.empty ''Keyboard shortcut dialog'' = None \<and>
   widget (resize_dialog example_qt
             (SizePersistedDialog_init (dialog_closing example_qt example_size_dialog Map.empty)
                ''fresh'' ''Prefs Viewer dialog''))
     = ''800x600'' \<and>
   widget (resize_dialog example_qt
             (SizePersistedDialog_init Map.empty ''fresh'' ''Prefs Viewer dialog''))
     = ''hint''"
proof -
  note rt = geometry_round_trip[of example_qt example_size_dialog Map.empty "''fresh''"
      "''Prefs Viewer dialog''"]
  have law: "\<forall>w0 w1. saveGeometry example_qt
               (restoreGeometry example_qt w0 (saveGeometry example_qt w1))
             = saveGeometry example_qt w1"
    by (simp add: example_qt_def)
  have key: "unique_pref_name example_size_dialog = ''Prefs Viewer dialog''"
    and wid: "widget example_size_dialog = ''800x600''"
    by (simp_all add: example_size_dialog_def)
  have other: "''Keyboard shortcut dialog'' \<noteq> unique_pref_name example_size_dialog"
    by (simp add: key)
  have unseen: "(Map.empty :: gprefs) ''Prefs Viewer dialog'' = None"
    by simp
  have a: "dialog_closing example_qt example_size_dialog Map.empty ''Prefs Viewer dialog''
             = Some ''800x600''"
    using rt key wid by (simp add: example_qt_def)
  have b: "dialog_closing example_qt example_size_dialog Map.empty ''Keyboard shortcut dialog''
             = None"
    using rt other by simp
  have "saveGeometry example_qt (widget (resize_dialog example_qt
          (SizePersistedDialog_init (dialog_closing example_qt example_size_dialog Map.empty)
             ''fresh'' (unique_pref_name example_size_dialog))))
        = saveGeometry example_qt (widget example_size_dialog)"
    using rt law by blast
  then have c: "widget (resize_dialog example_qt
             (SizePersistedDialog_init (dialog_closing example_qt example_size_dialog Map.empty)
                ''fresh'' ''Prefs Viewer dialog'')) = ''800x600''"
    by (simp add: key wid example_qt_def)
  have d: "widget (resize_dialog example_qt
             (SizePersistedDialog_init Map.empty ''fresh'' ''Prefs Viewer dialog'')) = ''hint''"
    using rt unseen by (simp add: example_qt_def)
  from a b c d show ?thesis by blast
qed

section \<open>Properties of the table items\<close>

lemmas flag_defs = ItemIsSelectable_def ItemIsEditable_def ItemIsDragEnabled_def
  ItemIsDropEnabled_def ItemIsUserCheckable_def ItemIsEnabled_def ItemIsTristate_def

text \<open>
  Claim C3. A checkable item constructed with \<^verbatim>\<open>checked=True\<close> reports \<^verbatim>\<open>True\<close>, one
  constructed with \<^verbatim>\<open>is_tristate=True\<close> and \<^verbatim>\<open>checked=None\<close> reports \<^verbatim>\<open>None\<close>, and one
  constructed with the default arguments reports \<^verbatim>\<open>False\<close>.
\<close>

theorem checkable_item_value:
  "get_boolean_value (CheckableTableWidgetItem_init (Some True) is_tristate) = Some True \<and>
   get_boolean_value (CheckableTableWidgetItem_init None True) = None \<and>
   get_boolean_value CheckableTableWidgetItem_default = Some False"
  by (simp add: get_boolean_value_def CheckableTableWidgetItem_init_def
      CheckableTableWidgetItem_default_def setCheckState_def Let_def)

text \<open>
  Claim C10. A read-only item constructed with \<^verbatim>\<open>text=None\<close> shows the empty string, and
  every read-only item has the selectable and the enabled flag and no other: it is not
  editable, not user checkable, not drag or drop enabled and not tristate.
\<close>

theorem read_only_item:
  "item_text (ReadOnlyTableWidgetItem_init None) = [] \<and>
   item_text (ReadOnlyTableWidgetItem_init (Some s)) = s \<and>
   item_flags (ReadOnlyTableWidgetItem_init t) = ItemIsSelectable OR ItemIsEnabled \<and>
   item_flags (ReadOnlyTableWidgetItem_init t) AND ItemIsSelectable = ItemIsSelectable \<and>
   item_flags (ReadOnlyTableWidgetItem_init t) AND ItemIsEnabled = ItemIsEnabled \<and>
   item_flags (ReadOnlyTableWidgetItem_init t) AND ItemIsEditable = 0 \<and>
   item_flags (ReadOnlyTableWidgetItem_init t) AND ItemIsUserCheckable = 0 \<and>
   item_flags (ReadOnlyTableWidgetItem_init t) AND ItemIsDragEnabled = 0 \<and>
   item_flags (ReadOnlyTableWidgetItem_init t) AND ItemIsDropEnabled = 0 \<and>
   item_flags (ReadOnlyTableWidgetItem_init t) AND ItemIsTristate = 0"
  by (simp add: ReadOnlyTableWidgetItem_init_def QTableWidgetItem_init_def setFlags_def flag_defs)

section \<open>Properties of clearing the settings\<close>

lemma iterkeys_filter:
  "iterkeys (filter (\<lambda>(k', v). P k') d) = filter P (iterkeys d)"
  by (induction d) (auto simp: iterkeys_def)

text \<open>
  The loop deletes keys that are in the dictionary, each once, so no deletion raises and
  what is left are the entries of the other keys, in their order.
\<close>

lemma delete_keys_filter:
  "distinct ks \<Longrightarrow> set ks \<subseteq> set (iterkeys d) \<Longrightarrow>
   delete_keys d ks = Inr (filter (\<lambda>(k, v). k \<notin> set ks) d)"
proof (induction ks arbitrary: d)
  case Nil
  then show ?case by simp
next
  case (Cons k ks)
  let ?d' = "filter (\<lambda>(k', v). k' \<noteq> k) d"
  from Cons.prems have k: "k \<in> set (iterkeys d)" and nk: "k \<notin> set ks"
    and dks: "distinct ks" and sub: "set ks \<subseteq> set (iterkeys d)"
    by auto
  have del: "dict_delitem d k = Inr ?d'"
    using k by (simp add: dict_delitem_def)
  have "set ks \<subseteq> set (iterkeys ?d')"
    using sub nk by (auto simp: iterkeys_filter)
  with Cons.IH[OF dks] have "delete_keys ?d' ks = Inr (filter (\<lambda>(k, v). k \<notin> set ks) ?d')"
    by simp
  moreover have "filter (\<lambda>(k, v). k \<notin> set ks) ?d' = filter (\<lambda>(k', v). k' \<notin> set (k # ks)) d"
    by (induction d) auto
  ultimately show ?case using del by simp
qed

lemma map_of_filter_keys:
  "map_of (filter (\<lambda>(k, v). P k) d) k = (if P k then map_of d k else None)"
  by (induction d) auto

text \<open>
  Claim C4. For every preference dictionary (no key twice), clearing the settings after a
  confirmed prompt succeeds and leaves exactly the entries whose key does not start with
  \<^verbatim>\<open>namespaced:<namespace>:\<close>: every key with the prefix is gone, and every other key
  keeps its value and its place.
\<close>

theorem clear_settings_removes_namespace:
  assumes "distinct (iterkeys (db_prefs self))"
  shows "\<exists>self'. clear_settings True r self = Inr self' \<and>
           db_prefs self' =
             filter (\<lambda>(k, v). \<not> startswith k (''namespaced:'' @ namespace self @ '':''))
               (db_prefs self) \<and>
           (\<forall>k. map_of (db_prefs self') k =
                  (if startswith k (''namespaced:'' @ namespace self @ '':'') then None
                   else map_of (db_prefs self) k))"
proof -
  let ?P = "\<lambda>k. startswith k (get_ns_prefix self)"
  let ?keys = "filter ?P (iterkeys (db_prefs self))"
  let ?d = "filter (\<lambda>(k, v). \<not> ?P k) (db_prefs self)"
  have "delete_keys (db_prefs self) ?keys
          = Inr (filter (\<lambda>(k, v). k \<notin> set ?keys) (db_prefs self))"
    using assms by (intro delete_keys_filter) auto
  moreover have "filter (\<lambda>(k, v). k \<notin> set ?keys) (db_prefs self) = ?d"
    by (rule filter_cong) (auto simp: iterkeys_def rev_image_eqI)
  ultimately have del: "delete_keys (db_prefs self) ?keys = Inr ?d"
    by simp
  have "map_of ?d k = (if ?P k then None else map_of (db_prefs self) k)" for k
    using map_of_filter_keys[of "\<lambda>k. \<not> ?P k" "db_prefs self" k] by simp
  then show ?thesis
    using del by (simp add: clear_settings_def Let_def populate_settings_def get_ns_prefix_def)
qed

theorem clear_settings_removes_namespace_witness:
  "distinct (iterkeys (db_prefs example_dialog)) \<and>
   (\<exists>self'. clear_settings True False example_dialog = Inr self' \<and>
      db_prefs self' = [(''other'', 2), (''namespaced:Other:c'', 4)])"
proof -
  have d: "distinct (iterkeys (db_prefs example_dialog))"
    by (simp add: example_dialog_def iterkeys_def)
  have "filter (\<lambda>(k, v). \<not> startswith k (''namespaced:'' @ namespace example_dialog @ '':''))
          (db_prefs example_dialog) = [(''other'', 2), (''namespaced:Other:c'', 4)]"
    by (simp add: example_dialog_def startswith_def)
  with clear_settings_removes_namespace[OF d, of False] show ?thesis
    using d by auto
qed

text \<open>
  Claim C9. When the user declines the confirmation prompt, clearing the settings returns
  at once: no key is deleted and the dialog and its preferences are as they were.
\<close>

theorem clear_settings_declined:
  "clear_settings False r self = Inr self"
  by (simp add: clear_settings_def)

end
